theory Spec2Isabelle
  imports Complex_Main "HOL-Library.Multiset" "HOL-Library.Word"
begin

section \<open>The OpenCV face detector client (deepface/detectors/OpenCv.py)\<close>

text \<open>
  The class \<open>OpenCvClient\<close> builds two Haar cascades at construction, detects faces
  with the first and locates eyes inside each face crop with the second. The cascades,
  the grey-scale conversion and \<open>detection.align_face\<close> are library code outside the
  file: they are parameters of the model, each one a function that may raise. Every
  exception of the Python is a value \<open>Inl e\<close> of the result.
\<close>

subsection \<open>Errors\<close>

text \<open>
  \<open>ValueError\<close> carries the argument tuple it was raised with, \<open>IndexError\<close> is what
  \<open>folders[0]\<close> raises on an empty list, \<open>LibraryError\<close> stands for any exception
  raised inside a library call (\<open>cv2.error\<close> and the like).
\<close>

datatype error = ValueError "string list" | IndexError | LibraryError string

subsection \<open>Cascade model store: \<open>__get_opencv_path\<close>, \<open>__build_cascade\<close>, \<open>build_model\<close>\<close>

text \<open>
  What construction reads from its surroundings: \<open>cv2.__file__\<close>, \<open>os.path.sep\<close>
  (one character on every platform) and \<open>os.path.isfile\<close>.
\<close>

record cv_install =
  cv2_file :: string
  path_sep :: char
  isfile :: "string \<Rightarrow> bool"

text \<open>\<open>str.split(sep)\<close> for a one-character separator: never the empty list.\<close>

fun split_sep :: "char \<Rightarrow> string \<Rightarrow> string list" where
  "split_sep c [] = [[]]"
| "split_sep c (x # xs) =
     (if x = c then [] # split_sep c xs
      else (case split_sep c xs of
              [] \<Rightarrow> [[x]]
            | w # ws \<Rightarrow> (x # w) # ws))"

text \<open>
  \<open>folders = opencv_home.split(os.path.sep)[0:-1]\<close>; \<open>path = folders[0]\<close> raises
  IndexError when no separator occurs in \<open>cv2.__file__\<close>; the loop appends the other
  folders after a slash each.
\<close>

definition get_opencv_path :: "cv_install \<Rightarrow> error + string" where
  "get_opencv_path sys =
     (case butlast (split_sep (path_sep sys) (cv2_file sys)) of
        [] \<Rightarrow> Inl IndexError
      | first # others \<Rightarrow>
          Inr (foldl (\<lambda>path folder. path @ ''/'' @ folder) first others @ ''/data/''))"

text \<open>\<open>cv2.CascadeClassifier(path)\<close>: the loaded classifier, known by the file it read.\<close>

datatype cascade = CascadeClassifier string

definition missing_asset :: "string \<Rightarrow> error" where
  "missing_asset p =
     ValueError [''Confirm that opencv is installed on your environment! Expected path '',
                 p, '' violated.'']"

definition unimplemented_model :: "string \<Rightarrow> error" where
  "unimplemented_model model_name =
     ValueError [''unimplemented model_name for build_cascade - '' @ model_name]"

definition build_cascade :: "cv_install \<Rightarrow> string \<Rightarrow> error + cascade" where
  "build_cascade sys model_name =
     (case get_opencv_path sys of
        Inl e \<Rightarrow> Inl e
      | Inr opencv_path \<Rightarrow>
          if model_name = ''haarcascade'' then
            (let face_detector_path = opencv_path @ ''haarcascade_frontalface_default.xml''
             in if \<not> isfile sys face_detector_path
                then Inl (missing_asset face_detector_path)
                else Inr (CascadeClassifier face_detector_path))
          else if model_name = ''haarcascade_eye'' then
            (let eye_detector_path = opencv_path @ ''haarcascade_eye.xml''
             in if \<not> isfile sys eye_detector_path
                then Inl (missing_asset eye_detector_path)
                else Inr (CascadeClassifier eye_detector_path))
          else Inl (unimplemented_model model_name))"

text \<open>
  \<open>build_model\<close> fills a dict with two keys. Its body is written over the builder it
  calls, so that what it asks of the builder can be stated; \<open>build_model\<close> itself
  calls \<open>__build_cascade\<close>. An exception in either call leaves no dict behind.
\<close>

definition build_model_with ::
  "(string \<Rightarrow> error + cascade) \<Rightarrow> error + (string \<rightharpoonup> cascade)" where
  "build_model_with builder =
     (let detector = Map.empty
      in case builder ''haarcascade'' of
           Inl e \<Rightarrow> Inl e
         | Inr face \<Rightarrow>
             (let detector = detector(''face_detector'' \<mapsto> face)
              in case builder ''haarcascade_eye'' of
                   Inl e \<Rightarrow> Inl e
                 | Inr eye \<Rightarrow> Inr (detector(''eye_detector'' \<mapsto> eye))))"

definition build_model :: "cv_install \<Rightarrow> error + (string \<rightharpoonup> cascade)" where
  "build_model sys = build_model_with (build_cascade sys)"

subsection \<open>Images, rectangles and slicing\<close>

text \<open>
  An image is a numpy array of shape (rows, columns, channels): the rows of pixels and
  the column count, which an array with no row still has. A pixel is its channel bytes;
  no arithmetic is done on them here.
\<close>

type_synonym pixel = "8 word list"

record image =
  rows :: "pixel list list"
  ncols :: nat

definition shape0 :: "image \<Rightarrow> nat" where
  "shape0 img = length (rows img)"

definition shape1 :: "image \<Rightarrow> nat" where
  "shape1 img = ncols img"

definition wf_image :: "image \<Rightarrow> bool" where
  "wf_image img = (\<forall>r \<in> set (rows img). length r = ncols img)"

text \<open>
  A rectangle is a row \<open>[x, y, w, h]\<close> of the cascade's int32 array. The components
  are integers; where the Python computes on them as \<open>np.int32\<close>, the wrap-around to
  32 bits is written out with \<open>i32\<close>.
\<close>

record rect =
  rect_x :: int
  rect_y :: int
  rect_w :: int
  rect_h :: int

definition i32 :: "int \<Rightarrow> int" where
  "i32 v = (v + 2 ^ 31) mod 2 ^ 32 - 2 ^ 31"

text \<open>
  Python's \<open>xs[lo:hi]\<close> for integers: a negative bound counts from the end, both bounds
  are clamped to the list, an empty range gives the empty list.
\<close>

definition slice_bound :: "int \<Rightarrow> nat \<Rightarrow> nat" where
  "slice_bound b n = nat (if b < 0 then max (b + int n) 0 else min b (int n))"

definition py_slice :: "int \<Rightarrow> int \<Rightarrow> 'a list \<Rightarrow> 'a list" where
  "py_slice lo hi xs =
     take (slice_bound hi (length xs) - slice_bound lo (length xs))
          (drop (slice_bound lo (length xs)) xs)"

definition py_slice_len :: "int \<Rightarrow> int \<Rightarrow> nat \<Rightarrow> nat" where
  "py_slice_len lo hi n = slice_bound hi n - slice_bound lo n"

text \<open>\<open>img[int(y) : int(y + h), int(x) : int(x + w)]\<close>, the sums taken in int32.\<close>

definition crop :: "image \<Rightarrow> rect \<Rightarrow> image" where
  "crop img r =
     \<lparr>rows = map (py_slice (rect_x r) (i32 (rect_x r + rect_w r)))
                 (py_slice (rect_y r) (i32 (rect_y r + rect_h r)) (rows img)),
      ncols = py_slice_len (rect_x r) (i32 (rect_x r + rect_w r)) (ncols img)\<rparr>"

subsection \<open>The library calls\<close>

text \<open>
  The two classifiers held in \<open>self.model\<close> are fixed at construction; their detection
  methods with the arguments the file passes (scale 1.1, 10 neighbours) are
  \<open>face_detectMultiScale3\<close>, returning rectangles, reject levels and scores, and
  \<open>eye_detectMultiScale\<close>. The score type is a parameter: a score is passed through
  untouched. The calls a run makes are recorded in order.
\<close>

type_synonym point = "int \<times> int"

record 'c cv_env =
  face_detectMultiScale3 :: "image \<Rightarrow> error + (rect list \<times> int list \<times> 'c list)"
  cvtColor_BGR2GRAY :: "image \<Rightarrow> error + image"
  eye_detectMultiScale :: "image \<Rightarrow> error + rect list"
  align_face :: "image \<Rightarrow> point option \<Rightarrow> point option \<Rightarrow> error + image"

datatype call =
    FaceDetect image
  | CvtColor image
  | EyeDetect image
  | AlignFace image "point option" "point option"

type_synonym 'a io = "call list \<times> (error + 'a)"

subsection \<open>Eye locator: \<open>find_eyes\<close>\<close>

text \<open>
  The sort key \<open>abs(v[2] * v[3])\<close> is computed on \<open>np.int32\<close> scalars: the product
  and the absolute value wrap to 32 bits.
\<close>

definition eye_key :: "rect \<Rightarrow> int" where
  "eye_key v = i32 \<bar>i32 (rect_w v * rect_h v)\<bar>"

text \<open>
  \<open>sorted(xs, key=k, reverse=True)\<close>: descending, and stable (equal keys keep the
  order they came in), as \<open>sort_key\<close> on the negated key is.
\<close>

definition sorted_desc :: "('a \<Rightarrow> int) \<Rightarrow> 'a list \<Rightarrow> 'a list" where
  "sorted_desc k xs = sort_key (\<lambda>v. - k v) xs"

text \<open>
  \<open>int(q)\<close> of a float truncates towards zero. \<open>v[0] + v[2] / 2\<close> is a float64; for
  int32 operands the quotient and the sum are exact, so rationals compute the same value.
\<close>

definition py_int :: "rat \<Rightarrow> int" where
  "py_int q = (if q < 0 then \<lceil>q\<rceil> else \<lfloor>q\<rfloor>)"

definition eye_center :: "rect \<Rightarrow> point" where
  "eye_center v =
     (py_int (of_int (rect_x v) + of_int (rect_w v) / 2),
      py_int (of_int (rect_y v) + of_int (rect_h v) / 2))"

text \<open>Lines 110 to 133: from the cascade's candidates to the pair of eye centres.\<close>

definition find_eyes_select :: "rect list \<Rightarrow> point option \<times> point option" where
  "find_eyes_select candidates =
     (let eyes = sorted_desc eye_key candidates
      in if 2 \<le> length eyes then
           (let eye_1 = eyes ! 0;
                eye_2 = eyes ! 1;
                (left_eye, right_eye) =
                  (if rect_x eye_1 < rect_x eye_2 then (eye_1, eye_2) else (eye_2, eye_1))
            in (Some (eye_center left_eye), Some (eye_center right_eye)))
         else (None, None))"

definition find_eyes :: "'c cv_env \<Rightarrow> image \<Rightarrow> (point option \<times> point option) io" where
  "find_eyes env img =
     (if shape0 img = 0 \<or> shape1 img = 0 then ([], Inr (None, None))
      else case cvtColor_BGR2GRAY env img of
             Inl e \<Rightarrow> ([CvtColor img], Inl e)
           | Inr detected_face_gray \<Rightarrow>
               (case eye_detectMultiScale env detected_face_gray of
                  Inl e \<Rightarrow> ([CvtColor img, EyeDetect detected_face_gray], Inl e)
                | Inr eyes \<Rightarrow>
                    ([CvtColor img, EyeDetect detected_face_gray],
                     Inr (find_eyes_select eyes))))"

subsection \<open>Face detector: \<open>detect_faces\<close>\<close>

text \<open>
  The loop over \<open>zip(faces, scores)\<close>, with the calls made so far and the list
  \<open>resp\<close> built so far. An exception in \<open>find_eyes\<close> or \<open>align_face\<close> leaves the
  function, since no handler surrounds the loop.
\<close>

type_synonym 'c detection = "image \<times> rect \<times> 'c"

fun detect_loop ::
  "'c cv_env \<Rightarrow> image \<Rightarrow> bool \<Rightarrow> (rect \<times> 'c) list \<Rightarrow> call list \<Rightarrow> 'c detection list
     \<Rightarrow> ('c detection list) io" where
  "detect_loop env img align [] calls resp = (calls, Inr resp)"
| "detect_loop env img align ((r, confidence) # rest) calls resp =
     (let detected_face = crop img r
      in if align then
           (case find_eyes env detected_face of
              (made, Inl e) \<Rightarrow> (calls @ made, Inl e)
            | (made, Inr (left_eye, right_eye)) \<Rightarrow>
                (let calls = calls @ made @ [AlignFace detected_face left_eye right_eye]
                 in case align_face env detected_face left_eye right_eye of
                      Inl e \<Rightarrow> (calls, Inl e)
                    | Inr aligned \<Rightarrow>
                        detect_loop env img align rest calls
                          (resp @ [(aligned, r, confidence)])))
         else detect_loop env img align rest calls (resp @ [(detected_face, r, confidence)]))"

text \<open>
  Before the search the function sets \<open>detected_face = None\<close> and
  \<open>img_region = [0, 0, img.shape[1], img.shape[0]]\<close>; both are overwritten inside the
  loop and read nowhere else.
\<close>

definition full_image_region :: "image \<Rightarrow> rect" where
  "full_image_region img =
     \<lparr>rect_x = 0, rect_y = 0, rect_w = int (shape1 img), rect_h = int (shape0 img)\<rparr>"

text \<open>
  \<open>try: faces, _, scores = ... except: pass\<close>: any exception of the search leaves
  \<open>faces = []\<close> (and \<open>scores\<close> unbound, which is read only when \<open>faces\<close> is not
  empty).
\<close>

definition detect_faces :: "'c cv_env \<Rightarrow> image \<Rightarrow> bool \<Rightarrow> ('c detection list) io" where
  "detect_faces env img align =
     (let resp = [];
          (faces, scores) =
            (case face_detectMultiScale3 env img of
               Inl e \<Rightarrow> ([], [])
             | Inr (found, levels, weights) \<Rightarrow> (found, weights))
      in if 0 < length faces
         then detect_loop env img align (zip faces scores) [FaceDetect img] resp
         else ([FaceDetect img], Inr resp))"

section \<open>Vocabulary of the properties\<close>

text \<open>
  The area of a rectangle, and the rectangles an eye cascade reports: sides that are
  not negative and an area that fits the 32-bit product of the sort key.
\<close>

definition area :: "rect \<Rightarrow> int" where
  "area v = rect_w v * rect_h v"

definition eye_rect_ok :: "rect \<Rightarrow> bool" where
  "eye_rect_ok v = (0 \<le> rect_w v \<and> 0 \<le> rect_h v \<and> rect_w v * rect_h v < 2 ^ 31)"

text \<open>
  The centre of a rectangle as the specification words it, \<open>x + width / 2\<close> cut to
  an integer, in integer arithmetic: the half of \<open>2 * x + w\<close>, rounded towards zero.
\<close>

definition half_trunc :: "int \<Rightarrow> int \<Rightarrow> int" where
  "half_trunc x w =
     (if 0 \<le> 2 * x + w then (2 * x + w) div 2 else - ((- (2 * x + w)) div 2))"

definition center_truncated :: "rect \<Rightarrow> point" where
  "center_truncated v =
     (half_trunc (rect_x v) (rect_w v), half_trunc (rect_y v) (rect_h v))"



text \<open>A rectangle that lies inside the image, with 32-bit corner coordinates.\<close>

definition in_bounds :: "image \<Rightarrow> rect \<Rightarrow> bool" where
  "in_bounds img r =
     (0 \<le> rect_x r \<and> 0 \<le> rect_y r \<and> 0 \<le> rect_w r \<and> 0 \<le> rect_h r \<and>
      rect_x r + rect_w r \<le> int (shape1 img) \<and> rect_y r + rect_h r \<le> int (shape0 img) \<and>
      rect_x r + rect_w r < 2 ^ 31 \<and> rect_y r + rect_h r < 2 ^ 31)"

text \<open>
  What the face of a result element was made from: the crop itself, or the crop passed
  through \<open>find_eyes\<close> and \<open>align_face\<close> when alignment is on.
\<close>

definition face_of_crop :: "'c cv_env \<Rightarrow> bool \<Rightarrow> image \<Rightarrow> image \<Rightarrow> bool" where
  "face_of_crop env align source face =
     (if align
      then (\<exists>left_eye right_eye.
              snd (find_eyes env source) = Inr (left_eye, right_eye) \<and>
              align_face env source left_eye right_eye = Inr face)
      else face = source)"

text \<open>Eye location and alignment both return on this crop.\<close>

definition alignable :: "'c cv_env \<Rightarrow> image \<Rightarrow> bool" where
  "alignable env source =
     (\<exists>left_eye right_eye face.
        snd (find_eyes env source) = Inr (left_eye, right_eye) \<and>
        align_face env source left_eye right_eye = Inr face)"

text \<open>
  Eye location or alignment raises the error on this crop.
\<close>

definition align_raises :: "'c cv_env \<Rightarrow> image \<Rightarrow> error \<Rightarrow> bool" where
  "align_raises env source e =
     (snd (find_eyes env source) = Inl e \<or>
      (\<exists>left_eye right_eye.
         snd (find_eyes env source) = Inr (left_eye, right_eye) \<and>
         align_face env source left_eye right_eye = Inl e))"

text \<open>
  The result the specification describes for an image without faces: one element, its
  region the whole image. (An element's face is an array in the code; the absent face of
  the description has no counterpart.)
\<close>

definition whole_image_fallback :: "image \<Rightarrow> error + 'c detection list \<Rightarrow> bool" where
  "whole_image_fallback img outcome =
     (case outcome of
        Inr [d] \<Rightarrow> fst (snd d) = full_image_region img
      | _ \<Rightarrow> False)"

text \<open>The two asset files under the data directory.\<close>

definition face_asset :: "string \<Rightarrow> string" where
  "face_asset data_dir = data_dir @ ''haarcascade_frontalface_default.xml''"

definition eye_asset :: "string \<Rightarrow> string" where
  "eye_asset data_dir = data_dir @ ''haarcascade_eye.xml''"

text \<open>
  The error carries the path among its arguments.
\<close>

definition error_names_path :: "error \<Rightarrow> string \<Rightarrow> bool" where
  "error_names_path e p = (case e of ValueError args \<Rightarrow> p \<in> set args | _ \<Rightarrow> False)"

section \<open>Concrete inputs\<close>

text \<open>A colour image of 6 rows and 8 columns, a grey one of the same size, an image with no
  row and one with no column.\<close>

definition sample_image :: image where
  "sample_image =
     \<lparr>rows = [[[0, 100, 150], [1, 101, 151], [2, 102, 152], [3, 103, 153], [4, 104, 154], [5, 105, 155], [6, 106, 156], [7, 107, 157]],
              [[10, 110, 160], [11, 111, 161], [12, 112, 162], [13, 113, 163], [14, 114, 164], [15, 115, 165], [16, 116, 166], [17, 117, 167]],
              [[20, 120, 170], [21, 121, 171], [22, 122, 172], [23, 123, 173], [24, 124, 174], [25, 125, 175], [26, 126, 176], [27, 127, 177]],
              [[30, 130, 180], [31, 131, 181], [32, 132, 182], [33, 133, 183], [34, 134, 184], [35, 135, 185], [36, 136, 186], [37, 137, 187]],
              [[40, 140, 190], [41, 141, 191], [42, 142, 192], [43, 143, 193], [44, 144, 194], [45, 145, 195], [46, 146, 196], [47, 147, 197]],
              [[50, 150, 200], [51, 151, 201], [52, 152, 202], [53, 153, 203], [54, 154, 204], [55, 155, 205], [56, 156, 206], [57, 157, 207]]],
      ncols = 8\<rparr>"

definition gray_sample_image :: image where
  "gray_sample_image =
     \<lparr>rows = [[[100], [101], [102], [103], [104], [105], [106], [107]],
              [[110], [111], [112], [113], [114], [115], [116], [117]],
              [[120], [121], [122], [123], [124], [125], [126], [127]],
              [[130], [131], [132], [133], [134], [135], [136], [137]],
              [[140], [141], [142], [143], [144], [145], [146], [147]],
              [[150], [151], [152], [153], [154], [155], [156], [157]]],
      ncols = 8\<rparr>"

definition flat_image :: image where
  "flat_image = \<lparr>rows = [], ncols = 8\<rparr>"

definition narrow_image :: image where
  "narrow_image = \<lparr>rows = [[], []], ncols = 0\<rparr>"

text \<open>Two face rectangles inside the sample images, and eye rectangles inside a face crop.\<close>

definition face_1 :: rect where
  "face_1 = \<lparr>rect_x = 1, rect_y = 0, rect_w = 6, rect_h = 6\<rparr>"

definition face_2 :: rect where
  "face_2 = \<lparr>rect_x = 3, rect_y = 1, rect_w = 5, rect_h = 5\<rparr>"

definition eye_a :: rect where
  "eye_a = \<lparr>rect_x = 2, rect_y = 1, rect_w = 3, rect_h = 3\<rparr>"

definition eye_b :: rect where
  "eye_b = \<lparr>rect_x = 0, rect_y = 1, rect_w = 2, rect_h = 2\<rparr>"

definition eye_c :: rect where
  "eye_c = \<lparr>rect_x = 2, rect_y = 4, rect_w = 1, rect_h = 1\<rparr>"

text \<open>Eye candidates of areas 100, 400 and 225.\<close>

definition eye_100 :: rect where
  "eye_100 = \<lparr>rect_x = 34, rect_y = 30, rect_w = 10, rect_h = 10\<rparr>"

definition eye_400 :: rect where
  "eye_400 = \<lparr>rect_x = 30, rect_y = 28, rect_w = 20, rect_h = 20\<rparr>"

definition eye_225 :: rect where
  "eye_225 = \<lparr>rect_x = 70, rect_y = 26, rect_w = 15, rect_h = 15\<rparr>"







text \<open>
  A stand-in for the grey-scale conversion: like OpenCV's it raises unless every pixel
  has three channels, and it returns one channel per pixel.
\<close>

definition three_channels :: "image \<Rightarrow> bool" where
  "three_channels img = list_all (list_all (\<lambda>p. length p = 3)) (rows img)"

definition sample_cvtColor :: "image \<Rightarrow> error + image" where
  "sample_cvtColor img =
     (if three_channels img
      then Inr \<lparr>rows = map (map (\<lambda>p. [p ! 1])) (rows img), ncols = ncols img\<rparr>
      else Inl (LibraryError ''cv2.error: Invalid number of channels in input image''))"

text \<open>
  Library behaviours: a search that finds nothing, one where every call raises, and one
  that finds two faces and three eye candidates in each crop.
\<close>

definition quiet_env :: "rat cv_env" where
  "quiet_env =
     \<lparr>face_detectMultiScale3 = (\<lambda>img. Inr ([], [], [])),
      cvtColor_BGR2GRAY = sample_cvtColor,
      eye_detectMultiScale = (\<lambda>img. Inr []),
      align_face = (\<lambda>img left_eye right_eye. Inr img)\<rparr>"

definition failing_env :: "rat cv_env" where
  "failing_env =
     \<lparr>face_detectMultiScale3 = (\<lambda>img. Inl (LibraryError ''cv2.error'')),
      cvtColor_BGR2GRAY = (\<lambda>img. Inl (LibraryError ''cv2.error'')),
      eye_detectMultiScale = (\<lambda>img. Inl (LibraryError ''cv2.error'')),
      align_face = (\<lambda>img left_eye right_eye. Inl (LibraryError ''cv2.error''))\<rparr>"

definition busy_env :: "rat cv_env" where
  "busy_env =
     \<lparr>face_detectMultiScale3 = (\<lambda>img. Inr ([face_1, face_2], [20, 20], [7 / 2, 9 / 4])),
      cvtColor_BGR2GRAY = sample_cvtColor,
      eye_detectMultiScale = (\<lambda>img. Inr [eye_c, eye_a, eye_b]),
      align_face = (\<lambda>img left_eye right_eye. Inr img)\<rparr>"

text \<open>An installation with both asset files, one without the eye file, one without any
  file, and a second builder.\<close>

definition sample_install :: cv_install where
  "sample_install =
     \<lparr>cv2_file = ''/usr/lib/python3/site-packages/cv2/__init__.py'',
      path_sep = CHR ''/'',
      isfile = (\<lambda>p. True)\<rparr>"

definition no_eye_install :: cv_install where
  "no_eye_install =
     sample_install\<lparr>isfile :=
       (\<lambda>p. p = ''/usr/lib/python3/site-packages/cv2/data/haarcascade_frontalface_default.xml'')\<rparr>"

definition bare_install :: cv_install where
  "bare_install = sample_install\<lparr>isfile := (\<lambda>p. False)\<rparr>"

definition other_builder :: "string \<Rightarrow> error + cascade" where
  "other_builder model_name =
     (if model_name = ''haarcascade'' \<or> model_name = ''haarcascade_eye''
      then build_cascade sample_install model_name
      else Inr (CascadeClassifier model_name))"

section \<open>Lemmas\<close>

subsection \<open>32-bit arithmetic and the centre of a rectangle\<close>

lemma i32_id: "- (2 ^ 31) \<le> v \<Longrightarrow> v < 2 ^ 31 \<Longrightarrow> i32 v = v"
  by (simp add: i32_def)

lemma eye_key_area:
  assumes "eye_rect_ok v"
  shows "eye_key v = area v"
proof -
  have a0: "0 \<le> rect_w v * rect_h v"
    using assms by (simp add: eye_rect_ok_def)
  have a1: "rect_w v * rect_h v < 2 ^ 31"
    using assms by (simp add: eye_rect_ok_def)
  have w: "i32 (rect_w v * rect_h v) = rect_w v * rect_h v"
    using a0 a1 by (intro i32_id) linarith+
  show ?thesis
    unfolding eye_key_def area_def w using a0 w by simp
qed

text \<open>Outside those rectangles the key is not the area: a product of 2 ^ 32 wraps to 0.\<close>

lemma eye_key_wraps:
  "eye_key \<lparr>rect_x = 0, rect_y = 0, rect_w = 65536, rect_h = 65536\<rparr> = 0"
  by (simp add: eye_key_def i32_def)

lemma floor_half: "\<lfloor>(of_int n :: rat) / 2\<rfloor> = n div 2"
  using floor_divide_of_int_eq [of n 2, where ?'a = rat] by simp

lemma ceiling_half: "\<lceil>(of_int n :: rat) / 2\<rceil> = - ((- n) div 2)"
proof -
  have "\<lceil>(of_int n :: rat) / 2\<rceil> = - \<lfloor>- ((of_int n :: rat) / 2)\<rfloor>"
    by (simp add: ceiling_def)
  also have "- ((of_int n :: rat) / 2) = of_int (- n) / 2" by simp
  also have "\<lfloor>(of_int (- n) :: rat) / 2\<rfloor> = (- n) div 2" by (rule floor_half)
  finally show ?thesis .
qed

lemma py_int_half: "py_int (of_int x + of_int w / 2) = half_trunc x w"
proof -
  have e: "(of_int x + of_int w / 2 :: rat) = of_int (2 * x + w) / 2" by simp
  have s: "((of_int (2 * x + w) :: rat) / 2 < 0) = (2 * x + w < 0)"
    by (simp del: of_int_add of_int_mult add: divide_less_0_iff)
  show ?thesis
    unfolding e py_int_def s half_trunc_def floor_half ceiling_half
    by (simp add: not_le)
qed

lemma eye_center_eq:
  "eye_center v = (half_trunc (rect_x v) (rect_w v), half_trunc (rect_y v) (rect_h v))"
  by (simp add: eye_center_def py_int_half)


lemma half_trunc_is_truncation:
  "\<bar>2 * half_trunc x w\<bar> \<le> \<bar>2 * x + w\<bar> \<and> \<bar>2 * x + w\<bar> < \<bar>2 * half_trunc x w\<bar> + 2 \<and>
   0 \<le> half_trunc x w * (2 * x + w)"
proof -
  define n where "n = 2 * x + w"
  define t where "t = half_trunc x w"
  have t: "t = (if 0 \<le> n then n div 2 else - ((- n) div 2))"
    by (simp add: t_def n_def half_trunc_def)
  have "\<bar>2 * t\<bar> \<le> \<bar>n\<bar> \<and> \<bar>n\<bar> < \<bar>2 * t\<bar> + 2 \<and> 0 \<le> t * n"
  proof (cases "0 \<le> n")
    case True
    then have "t = n div 2" by (simp add: t)
    moreover have "0 \<le> n div 2" using True by simp
    ultimately show ?thesis using True by (simp add: mult_nonneg_nonneg) presburger
  next
    case False
    then have e: "t = - ((- n) div 2)" by (simp add: t)
    have "0 \<le> (- n) div 2" using False by simp
    then have tn: "t \<le> 0" by (simp add: e)
    have "0 \<le> t * n" using tn False by (intro mult_nonpos_nonpos) simp_all
    moreover have "\<bar>2 * t\<bar> \<le> \<bar>n\<bar> \<and> \<bar>n\<bar> < \<bar>2 * t\<bar> + 2"
      unfolding e using False by presburger
    ultimately show ?thesis by simp
  qed
  then show ?thesis by (simp add: t_def n_def)
qed

lemma half_trunc_apart:
  assumes "wa \<le> wb"
  shows "half_trunc 10 wa < half_trunc 50 wb"
  using assms unfolding half_trunc_def by (simp split: if_splits) linarith


subsection \<open>The descending stable sort\<close>

lemma mset_sorted_desc: "mset (sorted_desc k xs) = mset xs"
  by (simp add: sorted_desc_def)

lemma length_sorted_desc: "length (sorted_desc k xs) = length xs"
  by (simp add: sorted_desc_def)

lemma set_sorted_desc: "set (sorted_desc k xs) = set xs"
  by (simp add: sorted_desc_def)

lemma sorted_desc_sorted: "sorted (map (\<lambda>v. - k v) (sorted_desc k xs))"
  by (simp add: sorted_desc_def)

lemma sorted_desc_cases:
  "2 \<le> length xs \<Longrightarrow> \<exists>e1 e2 rest. sorted_desc k xs = e1 # e2 # rest"
proof -
  assume "2 \<le> length xs"
  then have "2 \<le> length (sorted_desc k xs)" by (simp add: length_sorted_desc)
  then show ?thesis by (cases "sorted_desc k xs" rule: list.exhaust; simp; case_tac x22; simp)
qed

lemma sorted_desc_by_area:
  assumes "\<forall>v \<in> set eyes. eye_rect_ok v"
  shows "sorted_wrt (\<lambda>a b. area b \<le> area a) (sorted_desc eye_key eyes)"
proof -
  have "sorted_wrt (\<lambda>a b. - eye_key a \<le> - eye_key b) (sorted_desc eye_key eyes)"
    using sorted_desc_sorted [of eye_key eyes] by (simp add: sorted_map)
  moreover have "\<And>a b. a \<in> set (sorted_desc eye_key eyes) \<Longrightarrow>
      b \<in> set (sorted_desc eye_key eyes) \<Longrightarrow>
      - eye_key a \<le> - eye_key b \<Longrightarrow> area b \<le> area a"
    using assms by (simp add: set_sorted_desc eye_key_area)
  ultimately show ?thesis
    by (rule sorted_wrt_mono_rel [rotated])
qed

lemma sorted_desc_pair:
  "sorted_desc k [a, b] = (if k b \<le> k a then [a, b] else [b, a])"
  by (simp add: sorted_desc_def)

lemma sorted_desc_reorder:
  assumes "mset xs = mset ys" "inj_on k (set xs)"
  shows "sorted_desc k xs = sorted_desc k ys"
proof -
  have inj: "inj_on (\<lambda>v. - k v) (set xs)"
    using assms(2) by (auto simp: inj_on_def)
  have "mset xs = mset (sort_key (\<lambda>v. - k v) ys)"
    using assms(1) by simp
  from sort_key_inj_key_eq [OF this inj] show ?thesis
    by (simp add: sorted_desc_def)
qed




subsection \<open>The eye locator\<close>

lemma find_eyes_runs:
  assumes "shape0 img \<noteq> 0" "shape1 img \<noteq> 0"
    and "cvtColor_BGR2GRAY env img = Inr gray"
    and "eye_detectMultiScale env gray = Inr eyes"
  shows "find_eyes env img = ([CvtColor img, EyeDetect gray], Inr (find_eyes_select eyes))"
  using assms by (simp add: find_eyes_def)

lemma find_eyes_select_head2:
  assumes "sorted_desc eye_key eyes = e1 # e2 # rest"
  shows "find_eyes_select eyes =
     (if rect_x e1 < rect_x e2
      then (Some (eye_center e1), Some (eye_center e2))
      else (Some (eye_center e2), Some (eye_center e1)))"
  by (simp add: find_eyes_select_def assms)

lemma find_eyes_select_few:
  assumes "length eyes < 2"
  shows "find_eyes_select eyes = (None, None)"
  using assms by (simp add: find_eyes_select_def length_sorted_desc)

lemma find_eyes_select_swap:
  assumes "rect_x a \<noteq> rect_x b"
  shows "find_eyes_select [a, b] = find_eyes_select [b, a]"
proof -
  consider "rect_x a < rect_x b" | "rect_x b < rect_x a"
    using assms by linarith
  then show ?thesis
    by cases (simp_all add: find_eyes_select_def sorted_desc_pair)
qed

lemma find_eyes_select_reorder:
  assumes "mset xs = mset ys" "inj_on eye_key (set xs)"
  shows "find_eyes_select xs = find_eyes_select ys"
  by (simp add: find_eyes_select_def sorted_desc_reorder [OF assms])

lemma find_eyes_select_areas_100_400:
  "area eye_100 = 100 \<and> area eye_400 = 400 \<and> area eye_225 = 225 \<and>
   find_eyes_select [eye_100, eye_400, eye_225] =
     (Some (eye_center eye_400), Some (eye_center eye_225)) \<and>
   find_eyes_select [eye_100, eye_400, eye_225] = (Some (40, 38), Some (77, 33))"
  by (simp add: area_def find_eyes_select_def sorted_desc_def eye_key_def i32_def
      eye_center_eq half_trunc_def eye_100_def eye_400_def eye_225_def)







subsection \<open>Slices and crops\<close>

lemma slice_bound_in: "0 \<le> b \<Longrightarrow> b \<le> int n \<Longrightarrow> slice_bound b n = nat b"
  by (simp add: slice_bound_def)

lemma py_slice_in:
  assumes "0 \<le> lo" "lo \<le> hi" "hi \<le> int (length xs)"
  shows "py_slice lo hi xs = take (nat (hi - lo)) (drop (nat lo) xs)"
  using assms by (simp add: py_slice_def slice_bound_in nat_diff_distrib)

lemma py_slice_in_length:
  assumes "0 \<le> lo" "lo \<le> hi" "hi \<le> int (length xs)"
  shows "length (py_slice lo hi xs) = nat (hi - lo)"
  using assms by (simp add: py_slice_in)

lemma py_slice_in_nth:
  assumes "0 \<le> lo" "lo \<le> hi" "hi \<le> int (length xs)" "i < nat (hi - lo)"
  shows "py_slice lo hi xs ! i = xs ! (nat lo + i)"
  using assms by (simp add: py_slice_in)

lemma py_slice_len_in:
  assumes "0 \<le> lo" "lo \<le> hi" "hi \<le> int n"
  shows "py_slice_len lo hi n = nat (hi - lo)"
  using assms by (simp add: py_slice_len_def slice_bound_in nat_diff_distrib)

lemma crop_in_bounds:
  assumes wf: "wf_image img" and ib: "in_bounds img r"
  shows "shape0 (crop img r) = nat (rect_h r)"
    and "shape1 (crop img r) = nat (rect_w r)"
    and "i < nat (rect_h r) \<Longrightarrow> j < nat (rect_w r) \<Longrightarrow>
         rows (crop img r) ! i ! j = rows img ! (nat (rect_y r) + i) ! (nat (rect_x r) + j)"
proof -
  have xw: "i32 (rect_x r + rect_w r) = rect_x r + rect_w r"
    using ib by (intro i32_id) (simp_all add: in_bounds_def)
  have yh: "i32 (rect_y r + rect_h r) = rect_y r + rect_h r"
    using ib by (intro i32_id) (simp_all add: in_bounds_def)
  have ys: "0 \<le> rect_y r" "rect_y r \<le> rect_y r + rect_h r"
    "rect_y r + rect_h r \<le> int (length (rows img))"
    using ib by (simp_all add: in_bounds_def shape0_def)
  have xs: "0 \<le> rect_x r" "rect_x r \<le> rect_x r + rect_w r"
    "rect_x r + rect_w r \<le> int (ncols img)"
    using ib by (simp_all add: in_bounds_def shape1_def)
  show "shape0 (crop img r) = nat (rect_h r)"
    by (simp add: shape0_def crop_def yh py_slice_in_length [OF ys])
  show "shape1 (crop img r) = nat (rect_w r)"
    by (simp add: shape1_def crop_def xw py_slice_len_in [OF xs])
  assume i: "i < nat (rect_h r)" and j: "j < nat (rect_w r)"
  have len: "length (py_slice (rect_y r) (rect_y r + rect_h r) (rows img)) = nat (rect_h r)"
    using py_slice_in_length [OF ys] by simp
  have row: "py_slice (rect_y r) (rect_y r + rect_h r) (rows img) ! i
               = rows img ! (nat (rect_y r) + i)"
    using py_slice_in_nth [OF ys] i by simp
  have "nat (rect_y r) + i < length (rows img)"
    using ys i by linarith
  then have "rows img ! (nat (rect_y r) + i) \<in> set (rows img)" by simp
  then have rl: "length (rows img ! (nat (rect_y r) + i)) = ncols img"
    using wf by (simp add: wf_image_def)
  have xs': "rect_x r + rect_w r \<le> int (length (rows img ! (nat (rect_y r) + i)))"
    using xs rl by simp
  have "py_slice (rect_x r) (rect_x r + rect_w r) (rows img ! (nat (rect_y r) + i)) ! j
          = rows img ! (nat (rect_y r) + i) ! (nat (rect_x r) + j)"
    using py_slice_in_nth [OF xs(1) xs(2) xs'] j by simp
  then show "rows (crop img r) ! i ! j = rows img ! (nat (rect_y r) + i) ! (nat (rect_x r) + j)"
    using i len row by (simp add: crop_def xw yh)
qed

subsection \<open>The detection loop\<close>

lemma detect_loop_result:
  "detect_loop env img align items calls resp = (calls', Inr res) \<Longrightarrow>
   \<exists>new. res = resp @ new \<and> map snd new = items \<and>
     (\<forall>d \<in> set new. face_of_crop env align (crop img (fst (snd d))) (fst d))"
proof (induction items arbitrary: calls resp)
  case Nil
  then show ?case by simp
next
  case (Cons item rest)
  obtain r confidence where item: "item = (r, confidence)" by (cases item)
  show ?case
  proof (cases align)
    case False
    from Cons.prems have "detect_loop env img align rest calls
        (resp @ [(crop img r, r, confidence)]) = (calls', Inr res)"
      using False by (simp add: item)
    from Cons.IH [OF this] obtain new where
      n: "res = (resp @ [(crop img r, r, confidence)]) @ new"
        "map snd new = rest"
        "\<forall>d \<in> set new. face_of_crop env align (crop img (fst (snd d))) (fst d)"
      by blast
    have "face_of_crop env align (crop img r) (crop img r)"
      using False by (simp add: face_of_crop_def)
    then show ?thesis
      using n by (intro exI [of _ "(crop img r, r, confidence) # new"]) (simp add: item)
  next
    case True
    obtain made outcome where fe: "find_eyes env (crop img r) = (made, outcome)"
      by (cases "find_eyes env (crop img r)")
    from Cons.prems True fe obtain left_eye right_eye where
      oc: "outcome = Inr (left_eye, right_eye)"
      by (cases outcome) (auto simp: item)
    from Cons.prems True fe oc obtain aligned where
      al: "align_face env (crop img r) left_eye right_eye = Inr aligned"
      by (cases "align_face env (crop img r) left_eye right_eye") (auto simp: item Let_def)
    from Cons.prems have "detect_loop env img align rest
        (calls @ made @ [AlignFace (crop img r) left_eye right_eye])
        (resp @ [(aligned, r, confidence)]) = (calls', Inr res)"
      using True fe oc al by (simp add: item)
    from Cons.IH [OF this] obtain new where
      n: "res = (resp @ [(aligned, r, confidence)]) @ new"
        "map snd new = rest"
        "\<forall>d \<in> set new. face_of_crop env align (crop img (fst (snd d))) (fst d)"
      by blast
    have "face_of_crop env align (crop img r) aligned"
      using True fe oc al by (auto simp: face_of_crop_def)
    then show ?thesis
      using n by (intro exI [of _ "(aligned, r, confidence) # new"]) (simp add: item)
  qed
qed

lemma detect_loop_returns:
  "(align \<longrightarrow> (\<forall>item \<in> set items. alignable env (crop img (fst item)))) \<Longrightarrow>
   \<exists>calls' res. detect_loop env img align items calls resp = (calls', Inr res)"
proof (induction items arbitrary: calls resp)
  case Nil
  then show ?case by simp
next
  case (Cons item rest)
  obtain r confidence where item: "item = (r, confidence)" by (cases item)
  have rest: "align \<longrightarrow> (\<forall>item \<in> set rest. alignable env (crop img (fst item)))"
    using Cons.prems by simp
  show ?case
  proof (cases align)
    case False
    then show ?thesis using Cons.IH [OF rest] by (simp add: item)
  next
    case True
    then have "alignable env (crop img r)" using Cons.prems by (simp add: item)
    then obtain left_eye right_eye face where
      fe: "snd (find_eyes env (crop img r)) = Inr (left_eye, right_eye)" and
      al: "align_face env (crop img r) left_eye right_eye = Inr face"
      unfolding alignable_def by blast
    obtain made where fe': "find_eyes env (crop img r) = (made, Inr (left_eye, right_eye))"
      using fe by (cases "find_eyes env (crop img r)") simp
    show ?thesis using True fe' al Cons.IH [OF rest] by (simp add: item)
  qed
qed

lemma detect_faces_found:
  assumes "face_detectMultiScale3 env img = Inr (faces, levels, scores)" and "faces \<noteq> []"
  shows "detect_faces env img align =
           detect_loop env img align (zip faces scores) [FaceDetect img] []"
  using assms by (simp add: detect_faces_def)

lemma detect_faces_elements:
  assumes "snd (detect_faces env img align) = Inr res" and "d \<in> set res"
  shows "face_of_crop env align (crop img (fst (snd d))) (fst d)"
proof (cases "face_detectMultiScale3 env img")
  case (Inl e)
  then have "detect_faces env img align = ([FaceDetect img], Inr [])"
    by (simp add: detect_faces_def)
  then show ?thesis using assms by simp
next
  case (Inr found)
  obtain faces levels scores where f: "found = (faces, levels, scores)"
    by (cases found)
  show ?thesis
  proof (cases "faces = []")
    case True
    then have "detect_faces env img align = ([FaceDetect img], Inr [])"
      using Inr f by (simp add: detect_faces_def)
    then show ?thesis using assms by simp
  next
    case False
    obtain calls' where
      "detect_loop env img align (zip faces scores) [FaceDetect img] [] = (calls', Inr res)"
      using detect_faces_found [of env img faces levels scores align] Inr f False assms(1)
      by (cases "detect_loop env img align (zip faces scores) [FaceDetect img] []") simp
    from detect_loop_result [OF this] assms(2) show ?thesis by auto
  qed
qed

lemma detect_loop_raises:
  assumes "align" and "map fst items = pre @ r # post"
    and "\<forall>q \<in> set pre. alignable env (crop img q)"
    and "align_raises env (crop img r) e"
  shows "snd (detect_loop env img align items calls resp) = Inl e"
  using assms(2,3)
proof (induction pre arbitrary: items calls resp)
  case Nil
  then obtain confidence rest where items: "items = (r, confidence) # rest"
    by (cases items) auto
  obtain made outcome where fe: "find_eyes env (crop img r) = (made, outcome)"
    by (cases "find_eyes env (crop img r)")
  from assms(4) fe consider "outcome = Inl e"
    | left_eye right_eye where "outcome = Inr (left_eye, right_eye)"
        "align_face env (crop img r) left_eye right_eye = Inl e"
    unfolding align_raises_def by auto
  then show ?case
    using assms(1) fe by cases (simp_all add: items)
next
  case (Cons q pre')
  then obtain confidence rest where
    items: "items = (q, confidence) # rest" and rest: "map fst rest = pre' @ r # post"
    by (cases items) auto
  have "alignable env (crop img q)" using Cons.prems(2) by simp
  then obtain left_eye right_eye face where
    fe: "snd (find_eyes env (crop img q)) = Inr (left_eye, right_eye)" and
    al: "align_face env (crop img q) left_eye right_eye = Inr face"
    unfolding alignable_def by blast
  obtain made where fe': "find_eyes env (crop img q) = (made, Inr (left_eye, right_eye))"
    using fe by (cases "find_eyes env (crop img q)") simp
  have "\<forall>q \<in> set pre'. alignable env (crop img q)" using Cons.prems(2) by simp
  from Cons.IH [OF rest this] show ?case
    using assms(1) fe' al by (simp add: items)
qed

lemma detect_loop_error_origin:
  "snd (detect_loop env img align items calls resp) = Inl e \<Longrightarrow>
   align \<and> (\<exists>item \<in> set items. align_raises env (crop img (fst item)) e)"
proof (induction items arbitrary: calls resp)
  case Nil
  then show ?case by simp
next
  case (Cons item rest)
  obtain r confidence where item: "item = (r, confidence)" by (cases item)
  show ?case
  proof (cases align)
    case False
    then show ?thesis using Cons.prems Cons.IH by (auto simp: item)
  next
    case True
    obtain made outcome where fe: "find_eyes env (crop img r) = (made, outcome)"
      by (cases "find_eyes env (crop img r)")
    show ?thesis
    proof (cases outcome)
      case (Inl e')
      then have "e' = e" using Cons.prems True fe by (simp add: item)
      then have "align_raises env (crop img r) e"
        using fe Inl by (simp add: align_raises_def)
      then show ?thesis using True by (simp add: item)
    next
      case (Inr eyes)
      obtain left_eye right_eye where eyes: "eyes = (left_eye, right_eye)" by (cases eyes)
      show ?thesis
      proof (cases "align_face env (crop img r) left_eye right_eye")
        case (Inl e')
        then have "e' = e" using Cons.prems True fe Inr eyes by (simp add: item)
        then have "align_raises env (crop img r) e"
          using fe Inr eyes Inl by (auto simp: align_raises_def)
        then show ?thesis using True by (simp add: item)
      next
        case (Inr aligned)
        then have "snd (detect_loop env img align rest
            (calls @ made @ [AlignFace (crop img r) left_eye right_eye])
            (resp @ [(aligned, r, confidence)])) = Inl e"
          using Cons.prems True fe \<open>outcome = Inr eyes\<close> eyes by (simp add: item)
        from Cons.IH [OF this] show ?thesis by (simp add: item)
      qed
    qed
  qed
qed

subsection \<open>The model store\<close>

lemma split_sep_nonempty: "split_sep c s \<noteq> []"
  by (induction s) (auto split: list.splits)

lemma split_sep_length: "length (split_sep c s) = Suc (count_list s c)"
  by (induction s) (auto split: list.splits simp: split_sep_nonempty)

lemma get_opencv_path_resolves:
  assumes "path_sep sys \<in> set (cv2_file sys)"
  shows "\<exists>data_dir. get_opencv_path sys = Inr data_dir"
proof -
  have "0 < count_list (cv2_file sys) (path_sep sys)"
    using assms count_list_0_iff [of "cv2_file sys" "path_sep sys"] by auto
  then have "2 \<le> length (split_sep (path_sep sys) (cv2_file sys))"
    by (simp add: split_sep_length)
  then have "butlast (split_sep (path_sep sys) (cv2_file sys)) \<noteq> []"
    by (cases "split_sep (path_sep sys) (cv2_file sys)") (auto split: if_splits)
  then show ?thesis
    by (auto simp: get_opencv_path_def split: list.splits)
qed

lemma get_opencv_path_error: "get_opencv_path sys = Inl e \<Longrightarrow> e = IndexError"
  by (auto simp: get_opencv_path_def split: list.splits)

lemma build_cascade_face:
  assumes "get_opencv_path sys = Inr data_dir"
  shows "build_cascade sys ''haarcascade'' =
           (if isfile sys (face_asset data_dir)
            then Inr (CascadeClassifier (face_asset data_dir))
            else Inl (missing_asset (face_asset data_dir)))"
  using assms by (simp add: build_cascade_def face_asset_def)

lemma build_cascade_eye:
  assumes "get_opencv_path sys = Inr data_dir"
  shows "build_cascade sys ''haarcascade_eye'' =
           (if isfile sys (eye_asset data_dir)
            then Inr (CascadeClassifier (eye_asset data_dir))
            else Inl (missing_asset (eye_asset data_dir)))"
  using assms by (simp add: build_cascade_def eye_asset_def)

lemma build_cascade_other:
  assumes "get_opencv_path sys = Inr data_dir"
    and "model_name \<noteq> ''haarcascade''" and "model_name \<noteq> ''haarcascade_eye''"
  shows "build_cascade sys model_name = Inl (unimplemented_model model_name)"
  using assms by (simp add: build_cascade_def)

lemma build_cascade_no_path:
  assumes "get_opencv_path sys = Inl e"
  shows "build_cascade sys model_name = Inl e"
  using assms by (simp add: build_cascade_def)

lemma unimplemented_not_missing: "unimplemented_model model_name \<noteq> missing_asset p"
  by (simp add: unimplemented_model_def missing_asset_def)

lemma missing_asset_names_path: "error_names_path (missing_asset p) p"
  by (simp add: error_names_path_def missing_asset_def)

lemma build_model_resolved:
  assumes "get_opencv_path sys = Inr data_dir"
  shows "build_model sys =
           (if \<not> isfile sys (face_asset data_dir) then Inl (missing_asset (face_asset data_dir))
            else if \<not> isfile sys (eye_asset data_dir) then Inl (missing_asset (eye_asset data_dir))
            else Inr [''face_detector'' \<mapsto> CascadeClassifier (face_asset data_dir),
                      ''eye_detector'' \<mapsto> CascadeClassifier (eye_asset data_dir)])"
  by (simp add: build_model_def build_model_with_def build_cascade_face [OF assms]
      build_cascade_eye [OF assms])

lemma build_model_dom:
  assumes "build_model sys = Inr model"
  shows "dom model = {''face_detector'', ''eye_detector''}"
proof (cases "get_opencv_path sys")
  case (Inl e)
  then show ?thesis
    using assms by (simp add: build_model_def build_model_with_def build_cascade_no_path)
next
  case (Inr data_dir)
  from assms show ?thesis
    unfolding build_model_resolved [OF Inr] by (auto split: if_splits)
qed

subsection \<open>The concrete inputs\<close>

lemma sample_image_shape: "shape0 sample_image \<noteq> 0" "shape1 sample_image \<noteq> 0"
  by (simp_all add: shape0_def shape1_def sample_image_def)

lemma sample_image_wf: "wf_image sample_image"
  by (simp add: wf_image_def sample_image_def)

lemma sample_gray: "cvtColor_BGR2GRAY busy_env sample_image = Inr gray_sample_image"
  by (simp add: busy_env_def sample_cvtColor_def three_channels_def sample_image_def
      gray_sample_image_def)

lemma sample_eyes: "eye_detectMultiScale busy_env gray_sample_image = Inr [eye_c, eye_a, eye_b]"
  by (simp add: busy_env_def)

lemma quiet_gray: "cvtColor_BGR2GRAY quiet_env sample_image = Inr gray_sample_image"
  by (simp add: quiet_env_def sample_cvtColor_def three_channels_def sample_image_def
      gray_sample_image_def)

lemma quiet_eyes: "eye_detectMultiScale quiet_env gray_sample_image = Inr []"
  by (simp add: quiet_env_def)

lemma sample_eyes_ok: "\<forall>v \<in> set [eye_c, eye_a, eye_b]. eye_rect_ok v"
  by (simp add: eye_rect_ok_def eye_a_def eye_b_def eye_c_def)

lemma sample_sorted: "sorted_desc eye_key [eye_c, eye_a, eye_b] = [eye_a, eye_b, eye_c]"
  by (simp add: sorted_desc_def eye_key_def i32_def eye_a_def eye_b_def eye_c_def)



lemma face_1_in_bounds: "in_bounds sample_image face_1"
  by (simp add: in_bounds_def sample_image_def face_1_def shape0_def shape1_def)

lemma sample_faces:
  "face_detectMultiScale3 busy_env img = Inr ([face_1, face_2], [20, 20], [7 / 2, 9 / 4])"
  by (simp add: busy_env_def)

lemma detect_unaligned_sample:
  "snd (detect_faces busy_env sample_image False) =
     Inr [(crop sample_image face_1, face_1, 7 / 2), (crop sample_image face_2, face_2, 9 / 4)]"
  by (simp add: detect_faces_def busy_env_def)

lemma sample_alignable:
  "alignable busy_env (crop sample_image face_1)" "alignable busy_env (crop sample_image face_2)"
  by (simp_all add: alignable_def find_eyes_def busy_env_def sample_cvtColor_def
      three_channels_def crop_def sample_image_def face_1_def face_2_def py_slice_def
      py_slice_len_def slice_bound_def i32_def shape0_def shape1_def)

lemma gray_crop_not_converted:
  "find_eyes busy_env (crop gray_sample_image face_1) =
     ([CvtColor (crop gray_sample_image face_1)],
      Inl (LibraryError ''cv2.error: Invalid number of channels in input image''))"
  by (simp add: find_eyes_def busy_env_def sample_cvtColor_def three_channels_def crop_def
      gray_sample_image_def face_1_def py_slice_def py_slice_len_def slice_bound_def i32_def
      shape0_def shape1_def)

lemma detect_gray_sample_fails:
  "snd (detect_faces busy_env gray_sample_image True) =
     Inl (LibraryError ''cv2.error: Invalid number of channels in input image'')"
  using gray_crop_not_converted
  by (simp add: detect_faces_def sample_faces)

lemma gray_crop_raises:
  "align_raises busy_env (crop gray_sample_image face_1)
     (LibraryError ''cv2.error: Invalid number of channels in input image'')"
  using gray_crop_not_converted by (simp add: align_raises_def)

lemma sample_path:
  "get_opencv_path sample_install = Inr ''/usr/lib/python3/site-packages/cv2/data/''"
  by (simp add: get_opencv_path_def sample_install_def)

lemma no_eye_path:
  "get_opencv_path no_eye_install = Inr ''/usr/lib/python3/site-packages/cv2/data/''"
  by (simp add: get_opencv_path_def no_eye_install_def sample_install_def)

lemma bare_path:
  "get_opencv_path bare_install = Inr ''/usr/lib/python3/site-packages/cv2/data/''"
  by (simp add: get_opencv_path_def bare_install_def sample_install_def)

section \<open>The claims\<close>

subsection \<open>C1: an image without face candidates\<close>

text \<open>
  C1, as the code has it. When the face search raises, or returns no candidate, the
  only library call of \<open>detect_faces\<close> is that search, and the list returned is
  empty: no element stands for the whole image.
\<close>

theorem detect_faces_no_candidates:
  assumes "face_detectMultiScale3 env img = Inl e \<or>
           face_detectMultiScale3 env img = Inr ([], levels, weights)"
  shows "detect_faces env img align = ([FaceDetect img], Inr [])"
  using assms by (auto simp: detect_faces_def)

text \<open>
  On the sample image: the search that finds nothing, and the search that raises.
\<close>

theorem detect_faces_no_candidates_witness:
  "face_detectMultiScale3 quiet_env sample_image = Inr ([], [], []) \<and>
   detect_faces quiet_env sample_image True = ([FaceDetect sample_image], Inr []) \<and>
   face_detectMultiScale3 failing_env sample_image = Inl (LibraryError ''cv2.error'') \<and>
   detect_faces failing_env sample_image True = ([FaceDetect sample_image], Inr [])"
proof -
  have q: "face_detectMultiScale3 quiet_env sample_image = Inr ([], [], [])"
    by (simp add: quiet_env_def)
  have f: "face_detectMultiScale3 failing_env sample_image = Inl (LibraryError ''cv2.error'')"
    by (simp add: failing_env_def)
  from q have q': "face_detectMultiScale3 quiet_env sample_image = Inl (LibraryError ''cv2.error'') \<or>
      face_detectMultiScale3 quiet_env sample_image = Inr ([], [], [])"
    by simp
  from f have f': "face_detectMultiScale3 failing_env sample_image = Inl (LibraryError ''cv2.error'') \<or>
      face_detectMultiScale3 failing_env sample_image = Inr ([], [], [])"
    by simp
  from detect_faces_no_candidates [OF q', of True] detect_faces_no_candidates [OF f', of True] q f
  show ?thesis by simp
qed

text \<open>
  C1 as stated fails: on the sample image the result is the empty list, not the one
  element whose region is the whole image, both when the search finds nothing and when
  it raises.
\<close>

theorem detect_faces_fallback_counterexample:
  "snd (detect_faces quiet_env sample_image True) = Inr [] \<and>
   \<not> whole_image_fallback sample_image (snd (detect_faces quiet_env sample_image True)) \<and>
   snd (detect_faces failing_env sample_image True) = Inr [] \<and>
   \<not> whole_image_fallback sample_image (snd (detect_faces failing_env sample_image True))"
  by (simp add: detect_faces_def quiet_env_def failing_env_def whole_image_fallback_def)

subsection \<open>C2: an error of the face search\<close>

text \<open>
  C2. When the face search raises, \<open>detect_faces\<close> runs as it does with a search
  that returns no candidate, call for call, and returns a list: the error does not
  leave the function.
\<close>

theorem detect_faces_swallows_search_error:
  assumes "face_detectMultiScale3 env img = Inl e"
  shows "detect_faces env img align =
           detect_faces (env\<lparr>face_detectMultiScale3 := (\<lambda>i. Inr ([], [], []))\<rparr>) img align \<and>
         (\<exists>res. snd (detect_faces env img align) = Inr res)"
  using assms by (simp add: detect_faces_def)

text \<open>
  The library in which every call raises, on the sample image.
\<close>

theorem detect_faces_swallows_search_error_witness:
  "face_detectMultiScale3 failing_env sample_image = Inl (LibraryError ''cv2.error'') \<and>
   detect_faces failing_env sample_image True =
     detect_faces (failing_env\<lparr>face_detectMultiScale3 := (\<lambda>i. Inr ([], [], []))\<rparr>)
       sample_image True \<and>
   (\<exists>res. snd (detect_faces failing_env sample_image True) = Inr res)"
proof -
  have h: "face_detectMultiScale3 failing_env sample_image = Inl (LibraryError ''cv2.error'')"
    by (simp add: failing_env_def)
  from detect_faces_swallows_search_error [OF h, of True] h show ?thesis
    by blast
qed

subsection \<open>C3: crops without rows or columns\<close>

text \<open>
  C3. On an image with no row or no column \<open>find_eyes\<close> returns no eye at all and
  has called neither the grey-scale conversion nor the eye cascade: the record of its
  library calls is empty.
\<close>

theorem find_eyes_degenerate:
  assumes "shape0 img = 0 \<or> shape1 img = 0"
  shows "find_eyes env img = ([], Inr (None, None))"
  using assms by (auto simp: find_eyes_def)

text \<open>
  The image with no row and the image with no column, and a library whose conversion and
  eye cascade would raise.
\<close>

theorem find_eyes_degenerate_witness:
  "shape0 flat_image = 0 \<and> find_eyes failing_env flat_image = ([], Inr (None, None)) \<and>
   shape1 narrow_image = 0 \<and> find_eyes failing_env narrow_image = ([], Inr (None, None))"
proof -
  have h: "shape0 flat_image = 0" by (simp add: shape0_def flat_image_def)
  have n: "shape1 narrow_image = 0" by (simp add: shape1_def narrow_image_def)
  from h have h': "shape0 flat_image = 0 \<or> shape1 flat_image = 0" by simp
  from n have n': "shape0 narrow_image = 0 \<or> shape1 narrow_image = 0" by simp
  from find_eyes_degenerate [OF h', of failing_env] find_eyes_degenerate [OF n', of failing_env]
    h n
  show ?thesis by simp
qed

subsection \<open>C4: the two largest candidates\<close>

text \<open>
  C4. After a conversion and an eye search that return, on candidates as an eye
  cascade reports them: with fewer than two candidates \<open>find_eyes\<close> returns no eye
  (and no error); with two or more, the candidates are put in descending order of area,
  the same candidates as before, and the eyes returned are the centres of the first two
  of that order.
\<close>

theorem find_eyes_two_largest:
  assumes "shape0 img \<noteq> 0" and "shape1 img \<noteq> 0"
    and "cvtColor_BGR2GRAY env img = Inr gray"
    and "eye_detectMultiScale env gray = Inr eyes"
    and "\<forall>v \<in> set eyes. eye_rect_ok v"
  shows "(length eyes < 2 \<longrightarrow> snd (find_eyes env img) = Inr (None, None)) \<and>
         (2 \<le> length eyes \<longrightarrow>
            (\<exists>e1 e2 rest.
               sorted_desc eye_key eyes = e1 # e2 # rest \<and>
               mset (e1 # e2 # rest) = mset eyes \<and>
               sorted_wrt (\<lambda>a b. area b \<le> area a) (e1 # e2 # rest) \<and>
               (snd (find_eyes env img) = Inr (Some (eye_center e1), Some (eye_center e2)) \<or>
                snd (find_eyes env img) = Inr (Some (eye_center e2), Some (eye_center e1)))))"
proof -
  have run: "snd (find_eyes env img) = Inr (find_eyes_select eyes)"
    using find_eyes_runs [OF assms(1-4)] by simp
  have few: "length eyes < 2 \<longrightarrow> snd (find_eyes env img) = Inr (None, None)"
    by (simp add: run find_eyes_select_few)
  have many: "\<exists>e1 e2 rest.
               sorted_desc eye_key eyes = e1 # e2 # rest \<and>
               mset (e1 # e2 # rest) = mset eyes \<and>
               sorted_wrt (\<lambda>a b. area b \<le> area a) (e1 # e2 # rest) \<and>
               (snd (find_eyes env img) = Inr (Some (eye_center e1), Some (eye_center e2)) \<or>
                snd (find_eyes env img) = Inr (Some (eye_center e2), Some (eye_center e1)))"
    if len: "2 \<le> length eyes"
  proof -
    from sorted_desc_cases [OF len] obtain e1 e2 rest where
      s: "sorted_desc eye_key eyes = e1 # e2 # rest" by blast
    have m: "mset (e1 # e2 # rest) = mset eyes"
      using mset_sorted_desc [of eye_key eyes] by (simp add: s)
    have o: "sorted_wrt (\<lambda>a b. area b \<le> area a) (e1 # e2 # rest)"
      using sorted_desc_by_area [OF assms(5)] by (simp add: s)
    have "snd (find_eyes env img) = Inr (Some (eye_center e1), Some (eye_center e2)) \<or>
          snd (find_eyes env img) = Inr (Some (eye_center e2), Some (eye_center e1))"
      by (simp add: run find_eyes_select_head2 [OF s])
    with s m o show ?thesis by blast
  qed
  from few many show ?thesis by blast
qed

text \<open>
  On the sample image: three candidates of areas 1, 9 and 4, and no candidate at all.
\<close>

theorem find_eyes_two_largest_witness:
  "shape0 sample_image \<noteq> 0 \<and> shape1 sample_image \<noteq> 0 \<and>
   cvtColor_BGR2GRAY busy_env sample_image = Inr gray_sample_image \<and>
   eye_detectMultiScale busy_env gray_sample_image = Inr [eye_c, eye_a, eye_b] \<and>
   eye_rect_ok eye_c \<and> eye_rect_ok eye_a \<and> eye_rect_ok eye_b \<and>
   2 \<le> length [eye_c, eye_a, eye_b] \<and>
   (\<exists>e1 e2 rest.
      sorted_desc eye_key [eye_c, eye_a, eye_b] = e1 # e2 # rest \<and>
      mset (e1 # e2 # rest) = mset [eye_c, eye_a, eye_b] \<and>
      sorted_wrt (\<lambda>a b. area b \<le> area a) (e1 # e2 # rest) \<and>
      (snd (find_eyes busy_env sample_image) = Inr (Some (eye_center e1), Some (eye_center e2)) \<or>
       snd (find_eyes busy_env sample_image) = Inr (Some (eye_center e2), Some (eye_center e1)))) \<and>
   cvtColor_BGR2GRAY quiet_env sample_image = Inr gray_sample_image \<and>
   eye_detectMultiScale quiet_env gray_sample_image = Inr [] \<and>
   length ([] :: rect list) < 2 \<and>
   snd (find_eyes quiet_env sample_image) = Inr (None, None)"
proof -
  note c = sample_gray and e = sample_eyes
  have l: "2 \<le> length [eye_c, eye_a, eye_b]" by simp
  have none: "\<forall>v \<in> set ([] :: rect list). eye_rect_ok v" by simp
  have few: "length ([] :: rect list) < 2" by simp
  from find_eyes_two_largest [OF sample_image_shape c e sample_eyes_ok] l
    find_eyes_two_largest [OF sample_image_shape quiet_gray quiet_eyes none] few
  show ?thesis using sample_image_shape c e sample_eyes_ok quiet_gray quiet_eyes by simp
qed

subsection \<open>C5: left and right\<close>




subsection \<open>C6: eye centres\<close>

text \<open>
  C6. After a conversion and an eye search that return, each eye that
  \<open>find_eyes\<close> returns is the centre of its rectangle cut to integers,
  \<open>x + w / 2\<close> and \<open>y + h / 2\<close> rounded towards zero; the left one is the
  rectangle with the smaller x among the first two of the sorted order.
\<close>

theorem find_eyes_centers:
  assumes "shape0 img \<noteq> 0" and "shape1 img \<noteq> 0"
    and "cvtColor_BGR2GRAY env img = Inr gray"
    and "eye_detectMultiScale env gray = Inr eyes"
    and "sorted_desc eye_key eyes = e1 # e2 # rest"
  shows "snd (find_eyes env img) =
           (if rect_x e1 < rect_x e2
            then Inr (Some (center_truncated e1), Some (center_truncated e2))
            else Inr (Some (center_truncated e2), Some (center_truncated e1)))"
  using find_eyes_runs [OF assms(1-4)]
  by (simp add: find_eyes_select_head2 [OF assms(5)] eye_center_eq center_truncated_def)

text \<open>
  On the sample image the eyes are at (1, 2) and (3, 2).
\<close>

theorem find_eyes_centers_witness:
  "shape0 sample_image \<noteq> 0 \<and> shape1 sample_image \<noteq> 0 \<and>
   cvtColor_BGR2GRAY busy_env sample_image = Inr gray_sample_image \<and>
   eye_detectMultiScale busy_env gray_sample_image = Inr [eye_c, eye_a, eye_b] \<and>
   sorted_desc eye_key [eye_c, eye_a, eye_b] = [eye_a, eye_b, eye_c] \<and>
   snd (find_eyes busy_env sample_image) = Inr (Some (1, 2), Some (3, 2))"
proof -
  note c = sample_gray and e = sample_eyes
  have v: "center_truncated eye_a = (3, 2)" "center_truncated eye_b = (1, 2)"
    "\<not> rect_x eye_a < rect_x eye_b"
    by (simp_all add: center_truncated_def half_trunc_def eye_a_def eye_b_def)
  from find_eyes_centers [OF sample_image_shape c e sample_sorted]
  show ?thesis using sample_image_shape c e sample_sorted v by simp
qed

subsection \<open>C7: the region and the face\<close>

text \<open>
  C7. For every element of a result of \<open>detect_faces\<close>, the face was made from
  the crop of the input image at the element's own region: it is that crop when
  alignment is off, and \<open>align_face\<close> of that crop and its eyes when alignment is
  on. For a region inside the image the crop has the region's height and width, and its
  pixel at (i, j) is the image's pixel at (y + i, x + j).
\<close>

theorem detect_faces_region_roundtrip:
  assumes "snd (detect_faces env img align) = Inr res" and "d \<in> set res"
  shows "face_of_crop env align (crop img (fst (snd d))) (fst d) \<and>
         (\<not> align \<longrightarrow> fst d = crop img (fst (snd d))) \<and>
         (wf_image img \<and> in_bounds img (fst (snd d)) \<longrightarrow>
            shape0 (crop img (fst (snd d))) = nat (rect_h (fst (snd d))) \<and>
            shape1 (crop img (fst (snd d))) = nat (rect_w (fst (snd d))) \<and>
            (\<forall>i < nat (rect_h (fst (snd d))). \<forall>j < nat (rect_w (fst (snd d))).
               rows (crop img (fst (snd d))) ! i ! j =
               rows img ! (nat (rect_y (fst (snd d))) + i) ! (nat (rect_x (fst (snd d))) + j)))"
proof -
  have f: "face_of_crop env align (crop img (fst (snd d))) (fst d)"
    using assms by (rule detect_faces_elements)
  then have n: "\<not> align \<longrightarrow> fst d = crop img (fst (snd d))"
    by (simp add: face_of_crop_def)
  have c: "wf_image img \<and> in_bounds img (fst (snd d)) \<longrightarrow>
            shape0 (crop img (fst (snd d))) = nat (rect_h (fst (snd d))) \<and>
            shape1 (crop img (fst (snd d))) = nat (rect_w (fst (snd d))) \<and>
            (\<forall>i < nat (rect_h (fst (snd d))). \<forall>j < nat (rect_w (fst (snd d))).
               rows (crop img (fst (snd d))) ! i ! j =
               rows img ! (nat (rect_y (fst (snd d))) + i) ! (nat (rect_x (fst (snd d))) + j))"
    using crop_in_bounds [of img "fst (snd d)"] by blast
  from f n c show ?thesis by blast
qed

text \<open>
  The first face of the sample image, without alignment.
\<close>

theorem detect_faces_region_roundtrip_witness:
  "snd (detect_faces busy_env sample_image False) =
     Inr [(crop sample_image face_1, face_1, 7 / 2), (crop sample_image face_2, face_2, 9 / 4)] \<and>
   wf_image sample_image \<and> in_bounds sample_image face_1 \<and>
   shape0 (crop sample_image face_1) = 6 \<and> shape1 (crop sample_image face_1) = 6 \<and>
   rows (crop sample_image face_1) ! 2 ! 3 = rows sample_image ! 2 ! 4 \<and>
   rows (crop sample_image face_1) ! 2 ! 3 = [24, 124, 174]"
proof -
  have m: "(crop sample_image face_1, face_1, 7 / 2) \<in>
      set [(crop sample_image face_1, face_1, 7 / 2), (crop sample_image face_2, face_2, 9 / 4 :: rat)]"
    by simp
  have p: "rows sample_image ! 2 ! 4 = [24, 124, 174]" by (simp add: sample_image_def)
  have v: "rect_h face_1 = 6" "rect_w face_1 = 6" "rect_x face_1 = 1" "rect_y face_1 = 0"
    by (simp_all add: face_1_def)
  from detect_faces_region_roundtrip [OF detect_unaligned_sample m]
  have "shape0 (crop sample_image face_1) = 6 \<and> shape1 (crop sample_image face_1) = 6 \<and>
        (\<forall>i < 6. \<forall>j < 6. rows (crop sample_image face_1) ! i ! j =
             rows sample_image ! i ! (Suc j))"
    using sample_image_wf face_1_in_bounds by (simp add: v)
  then have "shape0 (crop sample_image face_1) = 6 \<and> shape1 (crop sample_image face_1) = 6 \<and>
        rows (crop sample_image face_1) ! 2 ! 3 = rows sample_image ! 2 ! (Suc 3)"
    by simp
  then show ?thesis
    using detect_unaligned_sample sample_image_wf face_1_in_bounds p by simp
qed

subsection \<open>C8: one element for each candidate\<close>

text \<open>
  C8, as the code has it. For n candidates, n at least 1, with n scores: whenever
  \<open>detect_faces\<close> returns, it returns n elements, the i-th with the i-th
  candidate's rectangle and score; it returns when alignment is off, or when eye
  location and alignment return on every crop. With alignment on, the error of the first
  crop on which eye location or alignment raises leaves \<open>detect_faces\<close>; and an
  error that leaves it was raised by eye location or alignment on one of the crops, with
  alignment on.
\<close>

theorem detect_faces_one_per_candidate:
  assumes "face_detectMultiScale3 env img = Inr (faces, levels, scores)"
    and "length scores = length faces"
    and "1 \<le> length faces"
  shows "(snd (detect_faces env img align) = Inr res \<longrightarrow>
            length res = length faces \<and>
            (\<forall>i < length faces.
               fst (snd (res ! i)) = faces ! i \<and> snd (snd (res ! i)) = scores ! i)) \<and>
         ((align \<longrightarrow> (\<forall>r \<in> set faces. alignable env (crop img r))) \<longrightarrow>
            (\<exists>returned. snd (detect_faces env img align) = Inr returned)) \<and>
         (align \<and> faces = before @ r # after \<and>
          (\<forall>q \<in> set before. alignable env (crop img q)) \<and>
          align_raises env (crop img r) e \<longrightarrow>
            snd (detect_faces env img align) = Inl e) \<and>
         (snd (detect_faces env img align) = Inl e' \<longrightarrow>
            align \<and> (\<exists>q \<in> set faces. align_raises env (crop img q) e'))"
proof -
  have ne: "faces \<noteq> []" using assms(3) by auto
  note df = detect_faces_found [OF assms(1) ne, of align]
  have fz: "map fst (zip faces scores) = faces"
    using assms(2) by (simp add: map_fst_zip)
  have shape: "length res = length faces \<and>
      (\<forall>i < length faces.
         fst (snd (res ! i)) = faces ! i \<and> snd (snd (res ! i)) = scores ! i)"
    if r: "snd (detect_faces env img align) = Inr res"
  proof -
    obtain calls' where
      run: "detect_loop env img align (zip faces scores) [FaceDetect img] [] = (calls', Inr res)"
      using r df
      by (cases "detect_loop env img align (zip faces scores) [FaceDetect img] []") simp
    from detect_loop_result [OF run] have m: "map snd res = zip faces scores"
      by auto
    have len: "length res = length faces"
      using arg_cong [OF m, of length] assms(2) by simp
    have "fst (snd (res ! i)) = faces ! i \<and> snd (snd (res ! i)) = scores ! i"
      if i: "i < length faces" for i
    proof -
      have "snd (res ! i) = map snd res ! i"
        using i len by simp
      also have "\<dots> = (faces ! i, scores ! i)"
        using i assms(2) by (simp add: m)
      finally show ?thesis by simp
    qed
    with len show ?thesis by blast
  qed
  have returns: "\<exists>returned. snd (detect_faces env img align) = Inr returned"
    if a: "align \<longrightarrow> (\<forall>r \<in> set faces. alignable env (crop img r))"
  proof -
    have "align \<longrightarrow>
        (\<forall>item \<in> set (zip faces scores). alignable env (crop img (fst item)))"
      using a by (auto dest: set_zip_leftD)
    from detect_loop_returns [OF this] obtain calls' returned where
      "detect_loop env img align (zip faces scores) [FaceDetect img] [] =
         (calls', Inr returned)"
      by blast
    then show ?thesis by (simp add: df)
  qed
  have raises: "snd (detect_faces env img align) = Inl e"
    if a: "align \<and> faces = before @ r # after \<and>
          (\<forall>q \<in> set before. alignable env (crop img q)) \<and>
          align_raises env (crop img r) e"
  proof -
    from a have al: "align" and pre: "\<forall>q \<in> set before. alignable env (crop img q)"
      and er: "align_raises env (crop img r) e"
      by simp_all
    have m: "map fst (zip faces scores) = before @ r # after"
      using a fz by simp
    have "snd (detect_loop env img align (zip faces scores) [FaceDetect img] []) = Inl e"
      by (rule detect_loop_raises [OF al m pre er])
    then show ?thesis by (simp add: df)
  qed
  have origin: "align \<and> (\<exists>q \<in> set faces. align_raises env (crop img q) e')"
    if f: "snd (detect_faces env img align) = Inl e'"
  proof -
    from f have "snd (detect_loop env img align (zip faces scores) [FaceDetect img] []) = Inl e'"
      by (simp add: df)
    from detect_loop_error_origin [OF this] obtain item where
      "align" "item \<in> set (zip faces scores)" "align_raises env (crop img (fst item)) e'"
      by blast
    moreover have "fst item \<in> set faces"
    proof -
      obtain q c where "item = (q, c)" by (cases item)
      with \<open>item \<in> set (zip faces scores)\<close> show ?thesis
        by (auto dest: set_zip_leftD)
    qed
    ultimately show ?thesis by blast
  qed
  from shape returns raises origin show ?thesis by blast
qed

text \<open>
  Two candidates with alignment: on the sample image, and on the grey image, where the
  conversion of the first crop raises.
\<close>

theorem detect_faces_one_per_candidate_witness:
  "face_detectMultiScale3 busy_env sample_image = Inr ([face_1, face_2], [20, 20], [7 / 2, 9 / 4]) \<and>
   length [7 / 2, 9 / 4 :: rat] = length [face_1, face_2] \<and>
   1 \<le> length [face_1, face_2] \<and>
   alignable busy_env (crop sample_image face_1) \<and>
   alignable busy_env (crop sample_image face_2) \<and>
   (\<exists>res. snd (detect_faces busy_env sample_image True) = Inr res \<and>
      length res = 2 \<and>
      fst (snd (res ! 0)) = face_1 \<and> snd (snd (res ! 0)) = 7 / 2 \<and>
      fst (snd (res ! 1)) = face_2 \<and> snd (snd (res ! 1)) = 9 / 4) \<and>
   face_detectMultiScale3 busy_env gray_sample_image =
     Inr ([face_1, face_2], [20, 20], [7 / 2, 9 / 4]) \<and>
   [face_1, face_2] = [] @ face_1 # [face_2] \<and>
   align_raises busy_env (crop gray_sample_image face_1)
     (LibraryError ''cv2.error: Invalid number of channels in input image'') \<and>
   snd (detect_faces busy_env gray_sample_image True) =
     Inl (LibraryError ''cv2.error: Invalid number of channels in input image'') \<and>
   (\<exists>q. q \<in> set [face_1, face_2] \<and>
      align_raises busy_env (crop gray_sample_image q)
        (LibraryError ''cv2.error: Invalid number of channels in input image''))"
proof -
  let ?e = "LibraryError ''cv2.error: Invalid number of channels in input image''"
  note f = sample_faces [of sample_image]
  note g = sample_faces [of gray_sample_image]
  have l: "length [7 / 2, 9 / 4 :: rat] = length [face_1, face_2]" "1 \<le> length [face_1, face_2]"
    by simp_all
  note both = detect_faces_one_per_candidate [OF f l]
  from both [where align = True, THEN conjunct2, THEN conjunct1] sample_alignable
  obtain res where o: "snd (detect_faces busy_env sample_image True) = Inr res"
    by auto
  from both [where align = True and res = res, THEN conjunct1] o have
    r: "length res = 2"
      "\<forall>i < 2. fst (snd (res ! i)) = [face_1, face_2] ! i \<and>
                snd (snd (res ! i)) = [7 / 2, 9 / 4] ! i"
    by auto
  from r(2) [rule_format, of 0] r(2) [rule_format, of 1]
  have first: "fst (snd (res ! 0)) = face_1 \<and> snd (snd (res ! 0)) = 7 / 2 \<and>
      fst (snd (res ! 1)) = face_2 \<and> snd (snd (res ! 1)) = 9 / 4"
    by simp
  note gray = detect_faces_one_per_candidate [OF g l, where align = True]
  have s: "[face_1, face_2] = [] @ face_1 # [face_2]" by simp
  from gray [where before = "[]" and r = face_1 and after = "[face_2]" and e = ?e,
      THEN conjunct2, THEN conjunct2, THEN conjunct1] gray_crop_raises
  have fails: "snd (detect_faces busy_env gray_sample_image True) = Inl ?e"
    by simp
  from gray [where e' = ?e, THEN conjunct2, THEN conjunct2, THEN conjunct2] fails
  have "\<exists>q. q \<in> set [face_1, face_2] \<and> align_raises busy_env (crop gray_sample_image q) ?e"
    by blast
  with o r(1) first f g l s sample_alignable gray_crop_raises fails show ?thesis by blast
qed

text \<open>
  C8 as stated fails: on the grey image the search reports two candidates, the
  conversion of the first crop raises, and with alignment on \<open>detect_faces\<close> ends
  in that error instead of returning two elements.
\<close>

theorem detect_faces_one_per_candidate_counterexample:
  "face_detectMultiScale3 busy_env gray_sample_image =
     Inr ([face_1, face_2], [20, 20], [7 / 2, 9 / 4]) \<and>
   length [face_1, face_2] = length [7 / 2, 9 / 4 :: rat] \<and>
   snd (detect_faces busy_env gray_sample_image True) =
     Inl (LibraryError ''cv2.error: Invalid number of channels in input image'')"
  using detect_gray_sample_fails by (simp add: sample_faces)

subsection \<open>C9: construction of the model store\<close>

text \<open>
  C9. With the data directory resolved, \<open>build_model\<close> fails with the error of
  the face file when that file is absent, else with the error of the eye file when that
  one is absent, and else returns the dict of both classifiers; each of the two errors
  carries the path of the absent file among its arguments. A dict it returns always has
  exactly the two keys. A model name other than the two known ones makes
  \<open>build_cascade\<close> fail with an error different from every missing-file error.
\<close>

theorem build_model_all_or_nothing:
  "(get_opencv_path sys = Inr data_dir \<longrightarrow>
      build_model sys =
        (if \<not> isfile sys (face_asset data_dir) then Inl (missing_asset (face_asset data_dir))
         else if \<not> isfile sys (eye_asset data_dir) then Inl (missing_asset (eye_asset data_dir))
         else Inr [''face_detector'' \<mapsto> CascadeClassifier (face_asset data_dir),
                   ''eye_detector'' \<mapsto> CascadeClassifier (eye_asset data_dir)])) \<and>
   (get_opencv_path sys = Inr data_dir \<and>
    \<not> isfile sys (data_dir @ ''haarcascade_frontalface_default.xml'') \<longrightarrow>
      (\<exists>e. build_model sys = Inl e \<and>
           error_names_path e (data_dir @ ''haarcascade_frontalface_default.xml''))) \<and>
   (get_opencv_path sys = Inr data_dir \<and>
    isfile sys (data_dir @ ''haarcascade_frontalface_default.xml'') \<and>
    \<not> isfile sys (data_dir @ ''haarcascade_eye.xml'') \<longrightarrow>
      (\<exists>e. build_model sys = Inl e \<and>
           error_names_path e (data_dir @ ''haarcascade_eye.xml''))) \<and>
   (build_model sys = Inr model \<longrightarrow>
      dom model = {''face_detector'', ''eye_detector''}) \<and>
   (get_opencv_path sys = Inr data_dir \<and>
    model_name \<noteq> ''haarcascade'' \<and> model_name \<noteq> ''haarcascade_eye'' \<longrightarrow>
      build_cascade sys model_name = Inl (unimplemented_model model_name) \<and>
      unimplemented_model model_name \<noteq> missing_asset p)"
proof -
  have named_face: "\<exists>e. build_model sys = Inl e \<and>
           error_names_path e (data_dir @ ''haarcascade_frontalface_default.xml'')"
    if "get_opencv_path sys = Inr data_dir \<and>
        \<not> isfile sys (data_dir @ ''haarcascade_frontalface_default.xml'')"
    using that build_model_resolved [of sys data_dir]
      missing_asset_names_path [of "face_asset data_dir"]
    by (simp add: face_asset_def)
  have named_eye: "\<exists>e. build_model sys = Inl e \<and>
           error_names_path e (data_dir @ ''haarcascade_eye.xml'')"
    if "get_opencv_path sys = Inr data_dir \<and>
        isfile sys (data_dir @ ''haarcascade_frontalface_default.xml'') \<and>
        \<not> isfile sys (data_dir @ ''haarcascade_eye.xml'')"
    using that build_model_resolved [of sys data_dir]
      missing_asset_names_path [of "eye_asset data_dir"]
    by (simp add: face_asset_def eye_asset_def)
  from named_face named_eye
    build_model_resolved [of sys data_dir] build_model_dom [of sys model]
    build_cascade_other [of sys data_dir model_name] unimplemented_not_missing [of model_name p]
  show ?thesis by blast
qed

text \<open>
  The installation with both files, the one without the eye file, the one without any
  file, and the model name svm.
\<close>

theorem build_model_all_or_nothing_witness:
  "get_opencv_path sample_install = Inr ''/usr/lib/python3/site-packages/cv2/data/'' \<and>
   build_model sample_install =
     Inr [''face_detector'' \<mapsto> CascadeClassifier
            ''/usr/lib/python3/site-packages/cv2/data/haarcascade_frontalface_default.xml'',
          ''eye_detector'' \<mapsto> CascadeClassifier
            ''/usr/lib/python3/site-packages/cv2/data/haarcascade_eye.xml''] \<and>
   dom [''face_detector'' \<mapsto> CascadeClassifier
            ''/usr/lib/python3/site-packages/cv2/data/haarcascade_frontalface_default.xml'',
        ''eye_detector'' \<mapsto> CascadeClassifier
            ''/usr/lib/python3/site-packages/cv2/data/haarcascade_eye.xml''] =
     {''face_detector'', ''eye_detector''} \<and>
   get_opencv_path bare_install = Inr ''/usr/lib/python3/site-packages/cv2/data/'' \<and>
   \<not> isfile bare_install
       ''/usr/lib/python3/site-packages/cv2/data/haarcascade_frontalface_default.xml'' \<and>
   (\<exists>e. build_model bare_install = Inl e \<and>
        error_names_path e
          ''/usr/lib/python3/site-packages/cv2/data/haarcascade_frontalface_default.xml'') \<and>
   get_opencv_path no_eye_install = Inr ''/usr/lib/python3/site-packages/cv2/data/'' \<and>
   isfile no_eye_install
       ''/usr/lib/python3/site-packages/cv2/data/haarcascade_frontalface_default.xml'' \<and>
   \<not> isfile no_eye_install ''/usr/lib/python3/site-packages/cv2/data/haarcascade_eye.xml'' \<and>
   (\<exists>e. build_model no_eye_install = Inl e \<and>
        error_names_path e ''/usr/lib/python3/site-packages/cv2/data/haarcascade_eye.xml'') \<and>
   build_model no_eye_install =
     Inl (missing_asset ''/usr/lib/python3/site-packages/cv2/data/haarcascade_eye.xml'') \<and>
   ''svm'' \<noteq> ''haarcascade'' \<and> ''svm'' \<noteq> ''haarcascade_eye'' \<and>
   build_cascade no_eye_install ''svm'' = Inl (unimplemented_model ''svm'') \<and>
   unimplemented_model ''svm'' \<noteq> missing_asset ''/usr/lib/python3/site-packages/cv2/data/haarcascade_eye.xml''"
proof -
  let ?dir = "''/usr/lib/python3/site-packages/cv2/data/''"
  let ?face = "''/usr/lib/python3/site-packages/cv2/data/haarcascade_frontalface_default.xml''"
  let ?eye = "''/usr/lib/python3/site-packages/cv2/data/haarcascade_eye.xml''"
  let ?model = "[''face_detector'' \<mapsto> CascadeClassifier ?face,
                 ''eye_detector'' \<mapsto> CascadeClassifier ?eye]"
  have n: "''svm'' \<noteq> ''haarcascade''" "''svm'' \<noteq> ''haarcascade_eye''" by simp_all
  have e: "eye_asset ?dir = ?eye" "face_asset ?dir = ?face" "?dir @ ''haarcascade_eye.xml'' = ?eye"
    "?dir @ ''haarcascade_frontalface_default.xml'' = ?face"
    by (simp_all add: eye_asset_def face_asset_def)
  have f: "isfile no_eye_install ?face" "\<not> isfile no_eye_install ?eye"
    by (simp_all add: no_eye_install_def)
  have g: "isfile sample_install ?face" "isfile sample_install ?eye"
    by (simp_all add: sample_install_def)
  have h: "\<not> isfile bare_install ?face"
    by (simp add: bare_install_def)
  note missing = build_model_all_or_nothing [of no_eye_install ?dir _ "''svm''" ?eye]
  note built = build_model_all_or_nothing [of sample_install ?dir ?model]
  note bare = build_model_all_or_nothing [of bare_install ?dir]
  have b: "build_model sample_install = Inr ?model"
    using built sample_path g by (simp add: e)
  have d: "dom ?model = {''face_detector'', ''eye_detector''}"
    using built b by blast
  have m: "build_model no_eye_install = Inl (missing_asset ?eye)"
    using missing no_eye_path f by (simp add: e)
  have me: "\<exists>e. build_model no_eye_install = Inl e \<and> error_names_path e ?eye"
    using missing [THEN conjunct2, THEN conjunct2, THEN conjunct1] no_eye_path f
    by (simp only: e) blast
  have mf: "\<exists>e. build_model bare_install = Inl e \<and> error_names_path e ?face"
    using bare [THEN conjunct2, THEN conjunct1] bare_path h
    by (simp only: e) blast
  have u: "build_cascade no_eye_install ''svm'' = Inl (unimplemented_model ''svm'') \<and>
      unimplemented_model ''svm'' \<noteq> missing_asset ?eye"
    using missing no_eye_path n by blast
  from b d m me mf u sample_path no_eye_path bare_path n f h show ?thesis by blast
qed

subsection \<open>C10: the names passed to the cascade builder\<close>

text \<open>
  C10. The result of \<open>build_model\<close> depends on the builder only at the names
  haarcascade and haarcascade_eye, the two it is called with, and \<open>build_model\<close> never
  fails with the error for an unimplemented model name.
\<close>

theorem build_model_known_names:
  "(builder ''haarcascade'' = builder' ''haarcascade'' \<and>
    builder ''haarcascade_eye'' = builder' ''haarcascade_eye'' \<longrightarrow>
      build_model_with builder = build_model_with builder') \<and>
   build_model sys = build_model_with (build_cascade sys) \<and>
   build_model sys \<noteq> Inl (unimplemented_model model_name)"
proof (intro conjI impI)
  assume "builder ''haarcascade'' = builder' ''haarcascade'' \<and>
    builder ''haarcascade_eye'' = builder' ''haarcascade_eye''"
  then show "build_model_with builder = build_model_with builder'"
    by (simp add: build_model_with_def split: sum.splits)
next
  show "build_model sys = build_model_with (build_cascade sys)"
    by (simp add: build_model_def)
next
  show "build_model sys \<noteq> Inl (unimplemented_model model_name)"
  proof (cases "get_opencv_path sys")
    case (Inl e)
    then have "build_model sys = Inl IndexError"
      using get_opencv_path_error [OF Inl]
      by (simp add: build_model_def build_model_with_def build_cascade_no_path)
    then show ?thesis by (simp add: unimplemented_model_def)
  next
    case (Inr data_dir)
    show ?thesis
      unfolding build_model_resolved [OF Inr]
      using unimplemented_not_missing [of model_name, symmetric]
      by (simp split: if_splits)
  qed
qed

text \<open>
  A builder that differs from \<open>build_cascade\<close> at every other name.
\<close>

theorem build_model_known_names_witness:
  "build_cascade sample_install ''haarcascade'' = other_builder ''haarcascade'' \<and>
   build_cascade sample_install ''haarcascade_eye'' = other_builder ''haarcascade_eye'' \<and>
   build_cascade sample_install ''svm'' \<noteq> other_builder ''svm'' \<and>
   build_model_with (build_cascade sample_install) = build_model_with other_builder \<and>
   build_model sample_install \<noteq> Inl (unimplemented_model ''svm'')"
proof -
  have a: "build_cascade sample_install ''haarcascade'' = other_builder ''haarcascade''"
    "build_cascade sample_install ''haarcascade_eye'' = other_builder ''haarcascade_eye''"
    by (simp_all add: other_builder_def)
  have d: "build_cascade sample_install ''svm'' \<noteq> other_builder ''svm''"
    by (simp add: other_builder_def build_cascade_other [OF sample_path])
  from build_model_known_names [of "build_cascade sample_install" other_builder
      sample_install "''svm''"]
  show ?thesis using a d by blast
qed

end
